theory Spec2Isabelle
  imports
    Complex_Main
    "HOL-Library.Multiset"
    "HOL-Library.Option_ord"
    "HOL-Library.Product_Lexorder"
begin

section \<open>Image describer: a shallow embedding of \<open>describe.py\<close>\<close>

text \<open>
  The development follows \<open>src/describe.py\<close>: the URL resolver
  \<open>fetch_image_url_with_headers\<close>, the retry loop and the normalisation of
  \<open>analyze_one\<close>, the presenter \<open>print_result\<close> and the CSV roll-up at the end
  of \<open>main\<close>.

  Modelling decisions.
  \<^item> The confidences of the service are modelled as \<^typ>\<open>real\<close>: only their
    order and the test against zero matter here, and the numbers of a JSON
    response are finite. The threshold comes from the command line, where
    \<open>float\<close> also accepts \<open>inf\<close>, \<open>-inf\<close> and \<open>nan\<close>, so it has a type of its
    own. Rounding is outside the model.
  \<^item> \<open>getattr(o, a, None)\<close> is an \<^typ>\<open>'a option\<close>: an absent attribute and an
    attribute holding \<open>None\<close> both read as \<^term>\<open>None\<close>. The accessors of the
    tag collection are tested with \<open>hasattr\<close>, which tells the two apart; they
    have a type of their own.
  \<^item> The remote calls (\<open>session.get\<close>, \<open>open\<close>, \<open>client.analyze\<close>,
    \<open>client.analyze_from_url\<close>) are an environment of functions that take the
    number of the current attempt, so that a call may behave differently on each
    attempt. A call returns either a value or the exception it raises.
  \<^item> Exceptions are values of a record that keeps what the handlers read:
    the family that decides which \<open>except\<close> clause catches it, the class name,
    the message and the two places a status code is looked up. One family
    stands for the classes that derive from \<open>BaseException\<close> only
    (\<open>KeyboardInterrupt\<close>, \<open>SystemExit\<close>), which \<open>except Exception\<close> does not
    catch: \<open>analyze_one\<close> returns either a record or the exception that leaves it.
  \<^item> \<open>time.sleep\<close> returns normally; each sleep and each remote call is written
    to an event log, which is the state threaded through the loop.
\<close>

subsection \<open>Python helpers\<close>

text \<open>\<open>s.startswith(p)\<close>.\<close>

definition startswith :: "string \<Rightarrow> string \<Rightarrow> bool" where
  "startswith s p = (take (length p) s = p)"

text \<open>\<open>sub in s\<close> on strings: \<open>sub\<close> occurs in \<open>s\<close> as a contiguous block.\<close>

fun contains :: "string \<Rightarrow> string \<Rightarrow> bool" where
  "contains sub [] = (sub = [])"
| "contains sub (c # cs) = (startswith (c # cs) sub \<or> contains sub cs)"

text \<open>
  \<open>a or b\<close> where both operands are a string or \<open>None\<close> (the empty string is
  falsy), and where both are a number or \<open>None\<close> (zero is falsy).
\<close>

definition py_or_str :: "string option \<Rightarrow> string option \<Rightarrow> string option" where
  "py_or_str a b = (if a = None \<or> a = Some [] then b else a)"

definition py_or_float :: "real option \<Rightarrow> real option \<Rightarrow> real option" where
  "py_or_float a b = (if a = None \<or> a = Some 0 then b else a)"

definition py_or_int :: "int option \<Rightarrow> int option \<Rightarrow> int option" where
  "py_or_int a b = (if a = None \<or> a = Some 0 then b else a)"

text \<open>
  A Python float as the command line gives it, and \<open>c >= th\<close> for a finite
  \<open>c\<close>: every comparison with \<open>nan\<close> is false.
\<close>

datatype py_float = Finite real | Pos_inf | Neg_inf | Nan

fun float_ge :: "real \<Rightarrow> py_float \<Rightarrow> bool" where
  "float_ge c (Finite th) = (th \<le> c)"
| "float_ge c Pos_inf = False"
| "float_ge c Neg_inf = True"
| "float_ge c Nan = False"

text \<open>
  The slice \<open>xs[:k]\<close>: the first \<open>k\<close> elements for \<open>k \<ge> 0\<close>, all but the last
  \<open>-k\<close> elements for a negative \<open>k\<close>.
\<close>

definition py_slice_to :: "'a list \<Rightarrow> int \<Rightarrow> 'a list" where
  "py_slice_to xs k =
     (if 0 \<le> k then take (nat k) xs else take (length xs - nat (- k)) xs)"

text \<open>
  \<open>sorted(xs, key=f, reverse=True)\<close>. Python's sort is stable, and with
  \<open>reverse=True\<close> it reverses the list, sorts it stably in ascending order and
  reverses the result, which keeps equal keys in their original order.
  \<^const>\<open>sort_key\<close> is the stable ascending sort.
\<close>

definition sorted_key_reverse :: "('a \<Rightarrow> 'k::linorder) \<Rightarrow> 'a list \<Rightarrow> 'a list" where
  "sorted_key_reverse f xs = rev (sort_key f (rev xs))"

subsection \<open>Exceptions\<close>

datatype exception_family =
    Http_response_error      \<comment> \<open>\<open>azure.core.exceptions.HttpResponseError\<close> and subclasses\<close>
  | Service_request_error    \<comment> \<open>\<open>ServiceRequestError\<close>: the request could not be sent\<close>
  | Service_response_error   \<comment> \<open>\<open>ServiceResponseError\<close>: no response was received\<close>
  | Other_exception          \<comment> \<open>any other instance of \<open>Exception\<close>\<close>
  | Base_exception_only      \<comment> \<open>\<open>KeyboardInterrupt\<close>, \<open>SystemExit\<close>: not an \<open>Exception\<close>\<close>

record py_exception =
  family :: exception_family
  type_name :: string                    \<comment> \<open>\<open>type(e).__name__\<close>\<close>
  message :: string                      \<comment> \<open>\<open>str(e)\<close>\<close>
  status_code :: "int option"            \<comment> \<open>\<open>getattr(e, "status_code", None)\<close>\<close>
  response_status_code :: "int option"
    \<comment> \<open>\<open>getattr(getattr(e, "response", None), "status_code", None)\<close>\<close>

subsection \<open>The service response and the normalised record\<close>

type_synonym raw_payload = string

record raw_tag =
  tag_name :: "string option"            \<comment> \<open>\<open>getattr(t, "name", None)\<close>\<close>
  tag_text :: "string option"            \<comment> \<open>\<open>getattr(t, "text", None)\<close>\<close>
  tag_confidence :: "real option"        \<comment> \<open>\<open>getattr(t, "confidence", None)\<close>\<close>
  tag_score :: "real option"             \<comment> \<open>\<open>getattr(t, "score", None)\<close>\<close>

text \<open>
  An accessor of the tag collection, as \<open>hasattr\<close> and the \<open>for\<close> loop see it:
  absent, present with a value that cannot be iterated (\<open>None\<close>, say; the
  class name of the value is kept for the message), or present and giving a
  sequence of raw tags (by a call if it is callable).
\<close>

datatype accessor = Absent | Not_iterable string | Gives "raw_tag list"

record tags_obj =
  values_attr :: accessor                \<comment> \<open>the attribute \<open>tags_obj.values\<close>\<close>
  list_attr :: accessor                  \<comment> \<open>the attribute \<open>tags_obj.list\<close>\<close>
  as_sequence :: "raw_tag list option"   \<comment> \<open>the object itself, if a list or tuple\<close>

record caption_obj =
  cap_text :: "string option"            \<comment> \<open>\<open>getattr(result.caption, "text", None)\<close>\<close>
  cap_content :: "string option"         \<comment> \<open>\<open>getattr(result.caption, "content", None)\<close>\<close>
  cap_confidence :: "real option"        \<comment> \<open>\<open>getattr(result.caption, "confidence", None)\<close>\<close>

record analysis_result =
  result_caption :: "caption_obj option" \<comment> \<open>\<open>result.caption\<close>, possibly \<open>None\<close>\<close>
  result_tags :: "tags_obj option"       \<comment> \<open>\<open>getattr(result, "tags", None)\<close>\<close>
  result_as_dict :: "raw_payload option" \<comment> \<open>\<open>result.as_dict()\<close>, if the method exists\<close>

record tag_entry =
  name :: string
  confidence :: "real option"

record caption_entry =
  caption_text :: "string option"
  caption_confidence :: "real option"

record analysis_record =
  source :: string
  success :: bool
  error :: "string option"
  caption :: "caption_entry option"
  tags :: "tag_entry list"
  raw :: "raw_payload option"

subsection \<open>The URL resolver\<close>

record http_response =
  content_type :: "string option"        \<comment> \<open>the \<open>Content-Type\<close> header, if any\<close>
  final_url :: string                    \<comment> \<open>\<open>response.url\<close>, after redirects\<close>

record environment =
  session_get :: "nat \<Rightarrow> string \<Rightarrow> py_exception + http_response"
  analyze_from_url :: "nat \<Rightarrow> string \<Rightarrow> py_exception + analysis_result"
  open_rb :: "nat \<Rightarrow> string \<Rightarrow> py_exception + string"
  analyze :: "nat \<Rightarrow> string \<Rightarrow> py_exception + analysis_result"

definition plain_exception :: "string \<Rightarrow> py_exception" where
  "plain_exception m =
     \<lparr>family = Other_exception, type_name = ''Exception'', message = m,
      status_code = None, response_status_code = None\<rparr>"

definition fetch_image_url_with_headers ::
    "environment \<Rightarrow> nat \<Rightarrow> string \<Rightarrow> py_exception + string" where
  "fetch_image_url_with_headers env attempt url =
     (case session_get env attempt url of
        Inl e \<Rightarrow> Inl e
      | Inr response \<Rightarrow>
          if contains ''image''
               (case content_type response of None \<Rightarrow> [] | Some v \<Rightarrow> v)
          then Inr (final_url response)
          else Inl (plain_exception (''URL did not resolve to a valid image: '' @ url)))"

subsection \<open>Normalisation\<close>

definition caption_of :: "analysis_result \<Rightarrow> caption_entry" where
  "caption_of result =
     \<lparr>caption_text =
        py_or_str (case result_caption result of None \<Rightarrow> None | Some c \<Rightarrow> cap_text c)
                  (case result_caption result of None \<Rightarrow> None | Some c \<Rightarrow> cap_content c),
      caption_confidence =
        (case result_caption result of None \<Rightarrow> None | Some c \<Rightarrow> cap_confidence c)\<rparr>"

text \<open>\<open>for t in x\<close> on a value that is not iterable raises \<open>TypeError\<close>.\<close>

definition not_iterable :: "string \<Rightarrow> py_exception" where
  "not_iterable cls =
     \<lparr>family = Other_exception, type_name = ''TypeError'',
      message = [CHR 0x27] @ cls @ [CHR 0x27] @ '' object is not iterable'',
      status_code = None, response_status_code = None\<rparr>"

text \<open>
  The sequence the \<open>for\<close> loop runs over: the first accessor that is present
  decides, and a present accessor that cannot be iterated makes the loop raise.
\<close>

definition raw_tags_of :: "tags_obj \<Rightarrow> py_exception + raw_tag list" where
  "raw_tags_of tobj =
     (case values_attr tobj of
        Gives v \<Rightarrow> Inr v
      | Not_iterable cls \<Rightarrow> Inl (not_iterable cls)
      | Absent \<Rightarrow>
          (case list_attr tobj of
             Gives l \<Rightarrow> Inr l
           | Not_iterable cls \<Rightarrow> Inl (not_iterable cls)
           | Absent \<Rightarrow> (case as_sequence tobj of Some s \<Rightarrow> Inr s | None \<Rightarrow> Inr [])))"

definition normalize_tag :: "raw_tag \<Rightarrow> tag_entry option" where
  "normalize_tag t =
     (let nm = py_or_str (tag_name t) (tag_text t);
          conf = py_or_float (tag_confidence t) (tag_score t)
      in case nm of
           None \<Rightarrow> None
         | Some n \<Rightarrow> Some \<lparr>name = n, confidence = conf\<rparr>)"
  \<comment> \<open>\<open>float(conf) if conf is not None else None\<close> is the identity on an optional real\<close>

definition tags_list_of :: "analysis_result \<Rightarrow> py_exception + tag_entry list" where
  "tags_list_of result =
     (case result_tags result of
        None \<Rightarrow> Inr []
      | Some tobj \<Rightarrow>
          (case raw_tags_of tobj of
             Inl e \<Rightarrow> Inl e
           | Inr raw_tags \<Rightarrow> Inr (List.map_filter normalize_tag raw_tags)))"

definition sort_key_of :: "tag_entry \<Rightarrow> bool \<times> real option" where
  "sort_key_of x = (confidence x \<noteq> None, confidence x)"

text \<open>The dictionary of the \<open>return\<close> inside the \<open>try\<close> block.\<close>

definition success_record ::
    "string \<Rightarrow> caption_entry \<Rightarrow> tag_entry list \<Rightarrow> raw_payload option \<Rightarrow> analysis_record" where
  "success_record src cap tags_list rw =
     \<lparr>source = src, success = True, error = None,
      caption = Some cap,
      tags = sorted_key_reverse sort_key_of tags_list,
      raw = rw\<rparr>"

text \<open>
  Lines 95 to 127: the caption is read first, then the tags are collected
  (which may raise), then the record is built.
\<close>

definition record_of :: "string \<Rightarrow> analysis_result \<Rightarrow> py_exception + analysis_record" where
  "record_of src result =
     (let cap = caption_of result in
      case tags_list_of result of
        Inl e \<Rightarrow> Inl e
      | Inr tags_list \<Rightarrow> Inr (success_record src cap tags_list (result_as_dict result)))"

definition failure_record :: "string \<Rightarrow> py_exception \<Rightarrow> analysis_record" where
  "failure_record src e =
     \<lparr>source = src, success = False,
      error = Some (type_name e @ '': '' @ message e),
      caption = None, tags = [], raw = None\<rparr>"

subsection \<open>The retry loop of \<open>analyze_one\<close>\<close>

datatype event =
    Pacing_sleep               \<comment> \<open>\<open>time.sleep(random.uniform(2, 6))\<close>\<close>
  | Session_get string         \<comment> \<open>\<open>session.get(url, ...)\<close>\<close>
  | Analyze_from_url string    \<comment> \<open>\<open>client.analyze_from_url(image_url=...)\<close>\<close>
  | Open_file string           \<comment> \<open>\<open>open(source, "rb")\<close>\<close>
  | Analyze_data string        \<comment> \<open>\<open>client.analyze(image_data=f, ...)\<close>\<close>
  | Backoff_sleep nat          \<comment> \<open>\<open>time.sleep(backoff ** k)\<close>, with the exponent \<open>k\<close>\<close>

text \<open>
  The body of the \<open>try\<close> block on one attempt: the record it returns or the
  exception it raises, the value of the variable \<open>source\<close> afterwards (it is
  rebound to the resolved URL before the analyze call), and the calls made.
\<close>

definition try_body ::
    "environment \<Rightarrow> nat \<Rightarrow> string \<Rightarrow> (py_exception + analysis_record) \<times> string \<times> event list" where
  "try_body env attempt src =
     (if startswith src ''http://'' \<or> startswith src ''https://'' then
        (case fetch_image_url_with_headers env attempt src of
           Inl e \<Rightarrow> (Inl e, src, [Session_get src])
         | Inr u \<Rightarrow>
             (case analyze_from_url env attempt u of
                Inl e \<Rightarrow> (Inl e, u, [Session_get src, Analyze_from_url u])
              | Inr result \<Rightarrow>
                  (record_of u result, u, [Session_get src, Analyze_from_url u])))
      else
        (case open_rb env attempt src of
           Inl e \<Rightarrow> (Inl e, src, [Open_file src])
         | Inr f \<Rightarrow>
             (case analyze env attempt f of
                Inl e \<Rightarrow> (Inl e, src, [Open_file src, Analyze_data f])
              | Inr result \<Rightarrow>
                  (record_of src result, src, [Open_file src, Analyze_data f]))))"

text \<open>
  The first \<open>except\<close> clause catches the three Azure families, the second
  every other instance of \<open>Exception\<close>. What neither catches leaves the function.
\<close>

definition is_azure_error :: "py_exception \<Rightarrow> bool" where
  "is_azure_error e =
     (family e = Http_response_error \<or> family e = Service_request_error
      \<or> family e = Service_response_error)"

definition is_exception :: "py_exception \<Rightarrow> bool" where
  "is_exception e = (family e \<noteq> Base_exception_only)"

definition status_of :: "py_exception \<Rightarrow> int option" where
  "status_of e = py_or_int (status_code e) (response_status_code e)"

definition retriable :: "py_exception \<Rightarrow> bool" where
  "retriable e =
     (status_of e \<in> {Some 429, Some 500, Some 502, Some 503, Some 504}
      \<or> family e = Service_request_error \<or> family e = Service_response_error)"

text \<open>
  The loop returns the record (\<open>Inr\<close>) or the exception that propagates out of
  \<open>analyze_one\<close> (\<open>Inl\<close>), and the log.
\<close>

function analyze_loop ::
    "environment \<Rightarrow> int \<Rightarrow> nat \<Rightarrow> string \<Rightarrow> event list
      \<Rightarrow> (py_exception + analysis_record) \<times> event list" where
  "analyze_loop env retries attempt src trace =
     (case try_body env attempt src of
        (Inr r, src', evs) \<Rightarrow> (Inr r, trace @ Pacing_sleep # evs)
      | (Inl e, src', evs) \<Rightarrow>
          if is_azure_error e then
            (if int attempt < retries \<and> retriable e then
               analyze_loop env retries (attempt + 1) src'
                 (trace @ Pacing_sleep # evs @ [Backoff_sleep (attempt + 1)])
             else (Inr (failure_record src' e), trace @ Pacing_sleep # evs))
          else if is_exception e then (Inr (failure_record src' e), trace @ Pacing_sleep # evs)
          else (Inl e, trace @ Pacing_sleep # evs))"
  by pat_completeness auto
termination
  by (relation "measure (\<lambda>(env, retries, attempt, src, trace). nat (retries - int attempt))") auto

definition analyze_one ::
    "environment \<Rightarrow> string \<Rightarrow> int \<Rightarrow> (py_exception + analysis_record) \<times> event list" where
  "analyze_one env src retries = analyze_loop env retries 0 src []"


subsection \<open>The presenter\<close>

datatype output_line =
    Header_line string                   \<comment> \<open>\<open>== {source}\<close>\<close>
  | Caption_line string "real option"    \<comment> \<open>\<open>Caption: {text}\<close>, then the confidence if numeric\<close>
  | Tag_line string "real option"        \<comment> \<open>\<open>- {name}\<close>, then the confidence if numeric\<close>
  | Error_line "string option"           \<comment> \<open>\<open>ERROR: {error}\<close>\<close>

text \<open>
  The lines \<open>print_result\<close> prints, in order. A confidence is kept as a number:
  its rendering with two decimals is not modelled.
\<close>

definition threshold_filter :: "py_float option \<Rightarrow> tag_entry list \<Rightarrow> tag_entry list" where
  "threshold_filter threshold tgs =
     (case threshold of
        None \<Rightarrow> tgs
      | Some th \<Rightarrow>
          filter (\<lambda>t. confidence t = None
                      \<or> (case confidence t of None \<Rightarrow> False | Some c \<Rightarrow> float_ge c th)) tgs)"

definition print_result :: "analysis_record \<Rightarrow> int \<Rightarrow> py_float option \<Rightarrow> output_line list" where
  "print_result entry top_k threshold =
     Header_line (source entry) #
     (if success entry then
        (case caption entry of
           None \<Rightarrow> []
         | Some cap \<Rightarrow>
             (case caption_text cap of
                None \<Rightarrow> []
              | Some t \<Rightarrow> if t = [] then [] else [Caption_line t (caption_confidence cap)]))
        @ map (\<lambda>t. Tag_line (name t) (confidence t))
            (py_slice_to (threshold_filter threshold (tags entry)) top_k)
      else [Error_line (error entry)])"

subsection \<open>The CSV summary written by \<open>main\<close>\<close>

datatype cell = Text_cell string | Number_cell real | None_cell

fun decimal :: "nat \<Rightarrow> string" where
  "decimal n =
     (if n < 10 then [char_of (48 + n)]
      else decimal (n div 10) @ [char_of (48 + n mod 10)])"

definition csv_header :: "int \<Rightarrow> cell list" where
  "csv_header top_k =
     [Text_cell ''source'', Text_cell ''caption'', Text_cell ''caption_confidence'']
     @ map (\<lambda>i. Text_cell (''tag_'' @ decimal (i + 1))) [0..<nat top_k]"

definition csv_row :: "int \<Rightarrow> analysis_record \<Rightarrow> cell list" where
  "csv_row top_k e =
     (if \<not> success e then
        [Text_cell (source e), Text_cell [], Text_cell []]
        @ replicate (nat top_k) (Text_cell [])
      else
        (let tgs = map (\<lambda>t. Text_cell (name t)) (py_slice_to (tags e) top_k);
             row =
               [Text_cell (source e),
                (case caption e of
                   None \<Rightarrow> Text_cell []
                 | Some cap \<Rightarrow>
                     (case caption_text cap of None \<Rightarrow> None_cell | Some t \<Rightarrow> Text_cell t)),
                (case caption e of
                   None \<Rightarrow> Text_cell []
                 | Some cap \<Rightarrow>
                     (case caption_confidence cap of
                        None \<Rightarrow> None_cell
                      | Some c \<Rightarrow> Number_cell c))]
               @ tgs
         in py_slice_to row (int (length (csv_header top_k)))))"

definition main_csv :: "int \<Rightarrow> analysis_record list \<Rightarrow> cell list list" where
  "main_csv top_k results = csv_header top_k # map (csv_row top_k) results"

subsection \<open>Reading the event log\<close>

text \<open>
  Every pass through the loop starts with the pacing sleep, so the number of
  attempts is the number of pacing sleeps in the log.
\<close>

definition attempts :: "event list \<Rightarrow> nat" where
  "attempts trace = length (filter (\<lambda>ev. ev = Pacing_sleep) trace)"

fun is_analyze_call :: "event \<Rightarrow> bool" where
  "is_analyze_call (Analyze_from_url u) = True"
| "is_analyze_call (Analyze_data d) = True"
| "is_analyze_call ev = False"

definition analyze_calls :: "event list \<Rightarrow> nat" where
  "analyze_calls trace = length (filter is_analyze_call trace)"

subsection \<open>Sample inputs\<close>

definition service_busy :: py_exception where
  "service_busy =
     \<lparr>family = Http_response_error, type_name = ''HttpResponseError'',
      message = ''Service Unavailable'', status_code = Some 503,
      response_status_code = Some 503\<rparr>"

definition not_found :: py_exception where
  "not_found =
     \<lparr>family = Http_response_error, type_name = ''ResourceNotFoundError'',
      message = ''Not Found'', status_code = Some 404,
      response_status_code = Some 404\<rparr>"

definition connection_lost :: py_exception where
  "connection_lost =
     \<lparr>family = Service_response_error, type_name = ''ServiceResponseError'',
      message = ''Connection aborted'', status_code = None,
      response_status_code = None\<rparr>"

definition throttled :: py_exception where
  "throttled =
     \<lparr>family = Http_response_error, type_name = ''HttpResponseError'',
      message = ''Too Many Requests'', status_code = None,
      response_status_code = Some 429\<rparr>"

definition keyboard_interrupt :: py_exception where
  "keyboard_interrupt =
     \<lparr>family = Base_exception_only, type_name = ''KeyboardInterrupt'',
      message = [], status_code = None, response_status_code = None\<rparr>"

definition file_missing :: py_exception where
  "file_missing =
     \<lparr>family = Other_exception, type_name = ''FileNotFoundError'',
      message = ''No such file or directory'', status_code = None,
      response_status_code = None\<rparr>"

definition sample_tags :: "raw_tag list" where
  "sample_tags =
     [\<lparr>tag_name = Some ''B'', tag_text = None, tag_confidence = Some (2 / 10), tag_score = None\<rparr>,
      \<lparr>tag_name = Some ''C'', tag_text = None, tag_confidence = None, tag_score = None\<rparr>,
      \<lparr>tag_name = Some ''A'', tag_text = None, tag_confidence = Some (9 / 10), tag_score = None\<rparr>,
      \<lparr>tag_name = None, tag_text = Some ''D'', tag_confidence = None, tag_score = Some (2 / 10)\<rparr>,
      \<lparr>tag_name = None, tag_text = None, tag_confidence = Some (5 / 10), tag_score = None\<rparr>,
      \<lparr>tag_name = Some ''E'', tag_text = None, tag_confidence = None, tag_score = None\<rparr>]"

definition sample_result :: analysis_result where
  "sample_result =
     \<lparr>result_caption =
        Some \<lparr>cap_text = Some ''a cat'', cap_content = None, cap_confidence = Some (8 / 10)\<rparr>,
      result_tags = Some \<lparr>values_attr = Absent, list_attr = Gives sample_tags, as_sequence = None\<rparr>,
      result_as_dict = Some ''{...}''\<rparr>"

definition sample_entries :: "tag_entry list" where
  "sample_entries =
     [\<lparr>name = ''A'', confidence = Some (9 / 10)\<rparr>,
      \<lparr>name = ''B'', confidence = Some (2 / 10)\<rparr>,
      \<lparr>name = ''C'', confidence = None\<rparr>]"

definition sample_record :: analysis_record where
  "sample_record =
     \<lparr>source = ''cat.png'', success = True, error = None,
      caption = Some \<lparr>caption_text = Some ''a cat'', caption_confidence = Some (8 / 10)\<rparr>,
      tags = sample_entries, raw = None\<rparr>"

text \<open>A service that is always busy; URLs resolve to themselves, files open.\<close>

definition env_busy :: environment where
  "env_busy =
     \<lparr>session_get = (\<lambda>n u. Inr \<lparr>content_type = Some ''image/png'', final_url = u\<rparr>),
      analyze_from_url = (\<lambda>n u. Inl service_busy),
      open_rb = (\<lambda>n p. Inr ''bytes''),
      analyze = (\<lambda>n d. Inl service_busy)\<rparr>"

text \<open>A service that answers; every URL redirects to one canonical image URL.\<close>

definition env_ok :: environment where
  "env_ok =
     \<lparr>session_get =
        (\<lambda>n u. Inr \<lparr>content_type = Some ''image/jpeg'', final_url = ''https://cdn.test/cat.jpg''\<rparr>),
      analyze_from_url = (\<lambda>n u. Inr sample_result),
      open_rb = (\<lambda>n p. Inr ''bytes''),
      analyze = (\<lambda>n d. Inr sample_result)\<rparr>"

text \<open>URLs redirect to an image, the service then answers 404; no file exists.\<close>

definition env_rejecting :: environment where
  "env_rejecting =
     \<lparr>session_get =
        (\<lambda>n u. Inr \<lparr>content_type = Some ''image/jpeg'', final_url = ''https://cdn.test/cat.jpg''\<rparr>),
      analyze_from_url = (\<lambda>n u. Inl not_found),
      open_rb = (\<lambda>n p. Inl file_missing),
      analyze = (\<lambda>n d. Inl not_found)\<rparr>"

text \<open>URLs serve an HTML page; the connection to the service drops once.\<close>

definition env_flaky :: environment where
  "env_flaky =
     \<lparr>session_get = (\<lambda>n u. Inr \<lparr>content_type = Some ''text/html'', final_url = u\<rparr>),
      analyze_from_url = (\<lambda>n u. Inl not_found),
      open_rb = (\<lambda>n p. Inr ''bytes''),
      analyze = (\<lambda>n d. if n = 0 then Inl connection_lost else Inr sample_result)\<rparr>"

text \<open>A service that asks to slow down; the status is on the response only.\<close>

definition env_throttled :: environment where
  "env_throttled =
     \<lparr>session_get = (\<lambda>n u. Inr \<lparr>content_type = Some ''image/png'', final_url = u\<rparr>),
      analyze_from_url = (\<lambda>n u. Inl throttled),
      open_rb = (\<lambda>n p. Inr ''bytes''),
      analyze = (\<lambda>n d. Inl throttled)\<rparr>"

text \<open>The user interrupts the program during the analyze call.\<close>

definition env_interrupted :: environment where
  "env_interrupted =
     \<lparr>session_get = (\<lambda>n u. Inr \<lparr>content_type = Some ''image/png'', final_url = u\<rparr>),
      analyze_from_url = (\<lambda>n u. Inl keyboard_interrupt),
      open_rb = (\<lambda>n p. Inr ''bytes''),
      analyze = (\<lambda>n d. Inl keyboard_interrupt)\<rparr>"

text \<open>A response whose \<open>tags.values\<close> attribute is present and holds \<open>None\<close>.\<close>

definition odd_result :: analysis_result where
  "odd_result =
     \<lparr>result_caption = None,
      result_tags =
        Some \<lparr>values_attr = Not_iterable ''NoneType'', list_attr = Gives sample_tags,
              as_sequence = None\<rparr>,
      result_as_dict = None\<rparr>"

definition env_odd :: environment where
  "env_odd =
     \<lparr>session_get = (\<lambda>n u. Inr \<lparr>content_type = Some ''image/png'', final_url = u\<rparr>),
      analyze_from_url = (\<lambda>n u. Inr odd_result),
      open_rb = (\<lambda>n p. Inr ''bytes''),
      analyze = (\<lambda>n d. Inr odd_result)\<rparr>"

text \<open>Two raw tags whose \<open>confidence\<close> is zero, with and without a zero \<open>score\<close>.\<close>

definition zero_tag :: raw_tag where
  "zero_tag = \<lparr>tag_name = Some ''fog'', tag_text = None, tag_confidence = Some 0, tag_score = Some 0\<rparr>"

definition rescored_tag :: raw_tag where
  "rescored_tag =
     \<lparr>tag_name = Some ''fog'', tag_text = None, tag_confidence = Some 0, tag_score = Some (7 / 10)\<rparr>"

text \<open>A successful record with no tags.\<close>

definition bare_record :: analysis_record where
  "bare_record =
     \<lparr>source = ''cat.png'', success = True, error = None,
      caption = Some \<lparr>caption_text = Some ''a cat'', caption_confidence = Some (8 / 10)\<rparr>,
      tags = [], raw = None\<rparr>"

fun is_tag_line :: "output_line \<Rightarrow> bool" where
  "is_tag_line (Tag_line n c) = True"
| "is_tag_line l = False"

text \<open>
  A service error carries the status \<open>st\<close>: its own status code is \<open>st\<close>, or it
  has none (\<open>None\<close> or 0) and the status code of its response is \<open>st\<close>.
\<close>

abbreviation carries_status :: "py_exception \<Rightarrow> int \<Rightarrow> bool" where
  "carries_status e st \<equiv>
     status_code e = Some st
     \<or> ((status_code e = None \<or> status_code e = Some 0) \<and> response_status_code e = Some st)"

section \<open>Properties\<close>

declare analyze_loop.simps [simp del]

subsection \<open>One pass through the loop\<close>

lemma attempts_append [simp]: "attempts (xs @ ys) = attempts xs + attempts ys"
  by (simp add: attempts_def)

lemma attempts_Cons_pacing [simp]: "attempts (Pacing_sleep # xs) = Suc (attempts xs)"
  by (simp add: attempts_def)

lemma attempts_backoff [simp]: "attempts [Backoff_sleep k] = 0"
  by (simp add: attempts_def)

lemma attempts_Nil [simp]: "attempts [] = 0"
  by (simp add: attempts_def)

lemma analyze_calls_append [simp]:
  "analyze_calls (xs @ ys) = analyze_calls xs + analyze_calls ys"
  by (simp add: analyze_calls_def)

lemma analyze_calls_simps [simp]:
  "analyze_calls [] = 0"
  "analyze_calls (Pacing_sleep # xs) = analyze_calls xs"
  "analyze_calls [Backoff_sleep k] = 0"
  by (simp_all add: analyze_calls_def)

lemma record_of_success:
  "record_of s result = Inr r \<Longrightarrow> \<exists>cap xs rw. r = success_record s cap xs rw"
  by (auto simp: record_of_def Let_def split: sum.splits)

lemma try_body_success:
  "try_body env n s = (Inr r, s', evs) \<Longrightarrow> \<exists>cap xs rw. r = success_record s' cap xs rw"
  by (auto simp: try_body_def split: if_splits sum.splits dest: record_of_success)

lemma try_body_no_pacing: "try_body env n s = (x, s', evs) \<Longrightarrow> attempts evs = 0"
  by (auto simp: try_body_def attempts_def split: if_splits sum.splits)

lemma analyze_loop_success:
  "try_body env n s = (Inr r, s', evs) \<Longrightarrow>
   analyze_loop env retries n s tr = (Inr r, tr @ Pacing_sleep # evs)"
  by (subst analyze_loop.simps) simp

lemma analyze_loop_retry:
  "try_body env n s = (Inl e, s', evs) \<Longrightarrow> is_azure_error e \<Longrightarrow> int n < retries \<Longrightarrow>
   retriable e \<Longrightarrow>
   analyze_loop env retries n s tr =
     analyze_loop env retries (Suc n) s' (tr @ Pacing_sleep # evs @ [Backoff_sleep (Suc n)])"
  by (subst analyze_loop.simps) simp

lemma azure_is_exception: "is_azure_error e \<Longrightarrow> is_exception e"
  by (auto simp: is_azure_error_def is_exception_def)

lemma analyze_loop_fail:
  "try_body env n s = (Inl e, s', evs) \<Longrightarrow>
   \<not> (is_azure_error e \<and> int n < retries \<and> retriable e) \<Longrightarrow> is_exception e \<Longrightarrow>
   analyze_loop env retries n s tr = (Inr (failure_record s' e), tr @ Pacing_sleep # evs)"
  by (subst analyze_loop.simps) auto

lemma analyze_loop_propagate:
  "try_body env n s = (Inl e, s', evs) \<Longrightarrow> \<not> is_exception e \<Longrightarrow>
   analyze_loop env retries n s tr = (Inl e, tr @ Pacing_sleep # evs)"
  by (subst analyze_loop.simps) (auto dest: azure_is_exception)

lemma analyze_loop_cases:
  obtains (Success) r s' evs where "try_body env n s = (Inr r, s', evs)"
    | (Retry) e s' evs where "try_body env n s = (Inl e, s', evs)"
        "is_azure_error e" "int n < retries" "retriable e"
    | (Fail) e s' evs where "try_body env n s = (Inl e, s', evs)"
        "\<not> (is_azure_error e \<and> int n < retries \<and> retriable e)" "is_exception e"
    | (Propagate) e s' evs where "try_body env n s = (Inl e, s', evs)" "\<not> is_exception e"
proof -
  obtain x s' evs where tb: "try_body env n s = (x, s', evs)"
    by (cases "try_body env n s") auto
  show thesis
  proof (cases x)
    case (Inl e)
    with tb Retry Fail Propagate show thesis by blast
  next
    case (Inr r)
    with tb Success show thesis by blast
  qed
qed

text \<open>
  What the loop can end with: the record of the success path, the record of a
  handler, or an exception of an attempt that no handler catches.
\<close>

lemma analyze_loop_outcome:
  "(\<exists>s' cap xs rw. fst (analyze_loop env retries n s tr) = Inr (success_record s' cap xs rw))
   \<or> (\<exists>s' e. fst (analyze_loop env retries n s tr) = Inr (failure_record s' e))
   \<or> (\<exists>m s0 s' evs e. try_body env m s0 = (Inl e, s', evs) \<and> \<not> is_exception e
         \<and> fst (analyze_loop env retries n s tr) = Inl e)"
proof (induction "nat (retries - int n)" arbitrary: n s tr)
  case 0
  show ?case
  proof (cases rule: analyze_loop_cases[where env=env and n=n and s=s and retries=retries])
    case (Success r s' evs)
    then show ?thesis
      using try_body_success[OF Success] by (auto simp: analyze_loop_success)
  next
    case (Retry e s' evs)
    with 0 show ?thesis by simp
  next
    case (Fail e s' evs)
    then show ?thesis by (auto simp: analyze_loop_fail)
  next
    case (Propagate e s' evs)
    then show ?thesis by (auto simp: analyze_loop_propagate)
  qed
next
  case (Suc k)
  show ?case
  proof (cases rule: analyze_loop_cases[where env=env and n=n and s=s and retries=retries])
    case (Success r s' evs)
    then show ?thesis
      using try_body_success[OF Success] by (auto simp: analyze_loop_success)
  next
    case (Retry e s' evs)
    have "k = nat (retries - int (Suc n))" using Suc.hyps(2) by simp
    from Suc.hyps(1)[OF this] show ?thesis
      by (simp add: analyze_loop_retry[OF Retry])
  next
    case (Fail e s' evs)
    then show ?thesis by (auto simp: analyze_loop_fail)
  next
    case (Propagate e s' evs)
    then show ?thesis by (auto simp: analyze_loop_propagate)
  qed
qed

lemma analyze_loop_attempts_bounds:
  "attempts tr + 1 \<le> attempts (snd (analyze_loop env retries n s tr))
   \<and> attempts (snd (analyze_loop env retries n s tr)) \<le> attempts tr + nat (retries - int n) + 1"
proof (induction "nat (retries - int n)" arbitrary: n s tr)
  case 0
  show ?case
  proof (cases rule: analyze_loop_cases[where env=env and n=n and s=s and retries=retries])
    case (Success r s' evs)
    then show ?thesis
      using try_body_no_pacing[OF Success] by (simp add: analyze_loop_success)
  next
    case (Retry e s' evs)
    with 0 show ?thesis by simp
  next
    case (Fail e s' evs)
    then show ?thesis
      using try_body_no_pacing[OF Fail(1)] by (simp add: analyze_loop_fail)
  next
    case (Propagate e s' evs)
    then show ?thesis
      using try_body_no_pacing[OF Propagate(1)] by (simp add: analyze_loop_propagate)
  qed
next
  case (Suc k)
  show ?case
  proof (cases rule: analyze_loop_cases[where env=env and n=n and s=s and retries=retries])
    case (Success r s' evs)
    then show ?thesis
      using try_body_no_pacing[OF Success] by (simp add: analyze_loop_success)
  next
    case (Retry e s' evs)
    have k: "k = nat (retries - int (Suc n))" using Suc.hyps(2) by simp
    have "nat (retries - int n) = Suc (nat (retries - int (Suc n)))"
      using Suc.hyps(2) by simp
    with Suc.hyps(1)[OF k, where s=s' and tr="tr @ Pacing_sleep # evs @ [Backoff_sleep (Suc n)]"]
      try_body_no_pacing[OF Retry(1)]
    show ?thesis
      by (simp add: analyze_loop_retry[OF Retry])
  next
    case (Fail e s' evs)
    then show ?thesis
      using try_body_no_pacing[OF Fail(1)] by (simp add: analyze_loop_fail)
  next
    case (Propagate e s' evs)
    then show ?thesis
      using try_body_no_pacing[OF Propagate(1)] by (simp add: analyze_loop_propagate)
  qed
qed

text \<open>
  When the four calls raise instances of \<open>Exception\<close> only, so does the body of
  an attempt: what the resolver and the \<open>for\<close> loop raise themselves is an
  \<open>Exception\<close> and a \<open>TypeError\<close>.
\<close>

lemma try_body_raises_exception:
  assumes "\<forall>n u e. session_get env n u = Inl e \<longrightarrow> is_exception e"
    and "\<forall>n u e. analyze_from_url env n u = Inl e \<longrightarrow> is_exception e"
    and "\<forall>n p e. open_rb env n p = Inl e \<longrightarrow> is_exception e"
    and "\<forall>n d e. analyze env n d = Inl e \<longrightarrow> is_exception e"
    and "try_body env n s = (Inl e, s', evs)"
  shows "is_exception e"
proof -
  have gen: "is_exception (plain_exception m)" "is_exception (not_iterable c)" for m c
    by (simp_all add: plain_exception_def not_iterable_def is_exception_def)
  have fetch: "fetch_image_url_with_headers env n u = Inl x \<Longrightarrow> is_exception x" for u x
    using assms(1) gen
    by (auto simp: fetch_image_url_with_headers_def split: sum.splits if_splits)
  have norm: "record_of u result = Inl x \<Longrightarrow> is_exception x" for u result x
    using gen
    by (auto simp: record_of_def tags_list_of_def raw_tags_of_def Let_def
        split: sum.splits option.splits accessor.splits)
  show ?thesis
    using assms(2-5) fetch norm
    by (auto simp: try_body_def split: if_splits sum.splits)
qed

subsection \<open>Evaluating the sample inputs\<close>

lemmas eval_defs = analyze_one_def analyze_loop.simps try_body_def startswith_def
  fetch_image_url_with_headers_def is_azure_error_def is_exception_def retriable_def
  status_of_def py_or_int_def

lemma tags_list_of_sample:
  "tags_list_of sample_result =
     Inr [\<lparr>name = ''B'', confidence = Some (2 / 10)\<rparr>,
          \<lparr>name = ''C'', confidence = None\<rparr>,
          \<lparr>name = ''A'', confidence = Some (9 / 10)\<rparr>,
          \<lparr>name = ''D'', confidence = Some (2 / 10)\<rparr>,
          \<lparr>name = ''E'', confidence = None\<rparr>]"
  by (simp add: tags_list_of_def sample_result_def sample_tags_def raw_tags_of_def
      List.map_filter_def normalize_tag_def py_or_str_def py_or_float_def)

lemma record_of_sample:
  "record_of s sample_result =
     Inr (success_record s (caption_of sample_result)
            [\<lparr>name = ''B'', confidence = Some (2 / 10)\<rparr>,
             \<lparr>name = ''C'', confidence = None\<rparr>,
             \<lparr>name = ''A'', confidence = Some (9 / 10)\<rparr>,
             \<lparr>name = ''D'', confidence = Some (2 / 10)\<rparr>,
             \<lparr>name = ''E'', confidence = None\<rparr>]
            (result_as_dict sample_result))"
  by (simp add: record_of_def tags_list_of_sample)

lemma record_of_odd: "record_of s odd_result = Inl (not_iterable ''NoneType'')"
  by (simp add: record_of_def tags_list_of_def raw_tags_of_def odd_result_def)

lemma eval_busy:
  "analyze_one env_busy ''cat.png'' 1 =
     (Inr (failure_record ''cat.png'' service_busy),
      [Pacing_sleep, Open_file ''cat.png'', Analyze_data ''bytes'', Backoff_sleep 1,
       Pacing_sleep, Open_file ''cat.png'', Analyze_data ''bytes''])"
  by (simp add: eval_defs env_busy_def service_busy_def)

lemma eval_ok:
  "analyze_one env_ok ''http://example.test/cat'' 4 =
     (record_of ''https://cdn.test/cat.jpg'' sample_result,
      [Pacing_sleep, Session_get ''http://example.test/cat'',
       Analyze_from_url ''https://cdn.test/cat.jpg''])"
  by (simp add: eval_defs env_ok_def record_of_sample)

text \<open>
  A \<open>values\<close> attribute that holds \<open>None\<close> is taken, the \<open>for\<close> loop raises and
  the generic handler returns a failure record.
\<close>

lemma eval_odd:
  "analyze_one env_odd ''cat.png'' 4 =
     (Inr (failure_record ''cat.png'' (not_iterable ''NoneType'')),
      [Pacing_sleep, Open_file ''cat.png'', Analyze_data ''bytes''])"
  by (simp add: eval_defs env_odd_def record_of_odd not_iterable_def)

lemma try_body_busy_file:
  "try_body env_busy 0 ''cat.png'' =
     (Inl service_busy, ''cat.png'', [Open_file ''cat.png'', Analyze_data ''bytes''])"
  by (simp add: try_body_def startswith_def env_busy_def)

lemma try_body_throttled_file:
  "try_body env_throttled 0 ''cat.png'' =
     (Inl throttled, ''cat.png'', [Open_file ''cat.png'', Analyze_data ''bytes''])"
  by (simp add: try_body_def startswith_def env_throttled_def)

lemma try_body_rejecting_file:
  "try_body env_rejecting 0 ''cat.png'' = (Inl file_missing, ''cat.png'', [Open_file ''cat.png''])"
  by (simp add: try_body_def startswith_def env_rejecting_def)

lemma try_body_rejecting_url:
  "try_body env_rejecting 0 ''http://example.test/cat'' =
     (Inl not_found, ''https://cdn.test/cat.jpg'',
      [Session_get ''http://example.test/cat'', Analyze_from_url ''https://cdn.test/cat.jpg''])"
  by (simp add: try_body_def startswith_def env_rejecting_def fetch_image_url_with_headers_def)

lemma try_body_flaky_file:
  "try_body env_flaky 0 ''cat.png'' =
     (Inl connection_lost, ''cat.png'', [Open_file ''cat.png'', Analyze_data ''bytes''])"
  by (simp add: try_body_def startswith_def env_flaky_def)

lemma try_body_interrupted_url:
  "try_body env_interrupted 0 ''http://example.test/cat'' =
     (Inl keyboard_interrupt, ''http://example.test/cat'',
      [Session_get ''http://example.test/cat'', Analyze_from_url ''http://example.test/cat''])"
  by (simp add: try_body_def startswith_def env_interrupted_def fetch_image_url_with_headers_def)





lemma env_busy_exceptions:
  "\<forall>n u e. session_get env_busy n u = Inl e \<longrightarrow> is_exception e"
  "\<forall>n u e. analyze_from_url env_busy n u = Inl e \<longrightarrow> is_exception e"
  "\<forall>n p e. open_rb env_busy n p = Inl e \<longrightarrow> is_exception e"
  "\<forall>n d e. analyze env_busy n d = Inl e \<longrightarrow> is_exception e"
  by (auto simp: env_busy_def service_busy_def is_exception_def)

subsection \<open>The shape of the returned record\<close>

text \<open>
  Claim C1. Every record returned by \<open>analyze_one\<close> is of one of two kinds:
  \<open>success\<close> is false exactly when \<open>error\<close> is not null, and that is exactly
  when \<open>caption\<close> is null and \<open>tags\<close> is empty. A success has a null error and a
  caption object; a failure has an error string, a null caption, no tags and a
  null \<open>raw\<close>.
\<close>

theorem analyze_one_record_invariant:
  assumes "analyze_one env src retries = (Inr r, trace)"
  shows "((success r = False) = (error r \<noteq> None))
       \<and> ((error r \<noteq> None) = (caption r = None \<and> tags r = []))
       \<and> (success r \<longrightarrow> error r = None \<and> caption r \<noteq> None)
       \<and> (\<not> success r \<longrightarrow> error r \<noteq> None \<and> caption r = None \<and> tags r = [] \<and> raw r = None)"
  using analyze_loop_outcome[of env retries 0 src "[]"] assms
  unfolding analyze_one_def
  by (auto simp: success_record_def failure_record_def)

theorem analyze_one_record_invariant_witness:
  "analyze_one env_busy ''cat.png'' 1 =
     (Inr (failure_record ''cat.png'' service_busy),
      [Pacing_sleep, Open_file ''cat.png'', Analyze_data ''bytes'', Backoff_sleep 1,
       Pacing_sleep, Open_file ''cat.png'', Analyze_data ''bytes''])
   \<and> success (failure_record ''cat.png'' service_busy) = False
   \<and> error (failure_record ''cat.png'' service_busy) \<noteq> None
   \<and> caption (failure_record ''cat.png'' service_busy) = None
   \<and> tags (failure_record ''cat.png'' service_busy) = []
   \<and> raw (failure_record ''cat.png'' service_busy) = None
   \<and> (\<exists>r. fst (analyze_one env_ok ''http://example.test/cat'' 4) = Inr r
         \<and> success r \<and> error r = None \<and> caption r \<noteq> None)"
proof -
  note ok = eval_ok[unfolded record_of_sample]
  from analyze_one_record_invariant[OF eval_busy] analyze_one_record_invariant[OF ok] eval_busy ok
  show ?thesis by (simp add: failure_record_def success_record_def)
qed

text \<open>
  Claim C5, as amended. Whatever the source string, if on every attempt each of
  the four calls (\<open>session.get\<close>, \<open>open\<close> and the two analyze calls) either
  returns or raises an instance of \<open>Exception\<close>, then \<open>analyze_one\<close> does not
  raise: it returns a record, the one built by the success path or the one
  built by a handler, each with all six fields. The loop ends after at least
  one and at most \<open>retries + 1\<close> attempts.
\<close>

theorem analyze_one_returns_record:
  assumes "\<forall>n u e. session_get env n u = Inl e \<longrightarrow> is_exception e"
    and "\<forall>n u e. analyze_from_url env n u = Inl e \<longrightarrow> is_exception e"
    and "\<forall>n p e. open_rb env n p = Inl e \<longrightarrow> is_exception e"
    and "\<forall>n d e. analyze env n d = Inl e \<longrightarrow> is_exception e"
  shows "(\<exists>r. fst (analyze_one env src retries) = Inr r
            \<and> ((\<exists>s' cap xs rw. r = success_record s' cap xs rw)
                \<or> (\<exists>s' e. r = failure_record s' e)))
       \<and> 1 \<le> attempts (snd (analyze_one env src retries))
       \<and> attempts (snd (analyze_one env src retries)) \<le> nat retries + 1"
proof -
  have "\<not> (\<exists>m s0 s' evs e. try_body env m s0 = (Inl e, s', evs) \<and> \<not> is_exception e)"
    using try_body_raises_exception[OF assms] by blast
  with analyze_loop_outcome[of env retries 0 src "[]"]
  have "\<exists>r. fst (analyze_one env src retries) = Inr r
            \<and> ((\<exists>s' cap xs rw. r = success_record s' cap xs rw)
                \<or> (\<exists>s' e. r = failure_record s' e))"
    unfolding analyze_one_def by (elim disjE exE) (simp, blast)+
  moreover have "1 \<le> attempts (snd (analyze_one env src retries))
       \<and> attempts (snd (analyze_one env src retries)) \<le> nat retries + 1"
    using analyze_loop_attempts_bounds[of "[]" env retries 0 src]
    unfolding analyze_one_def by simp
  ultimately show ?thesis by blast
qed

theorem analyze_one_returns_record_witness:
  "analyze env_busy 0 ''bytes'' = Inl service_busy
   \<and> is_exception service_busy
   \<and> (\<exists>r. fst (analyze_one env_busy ''cat.png'' 1) = Inr r)
   \<and> attempts (snd (analyze_one env_busy ''cat.png'' 1)) \<le> 2"
  using analyze_one_returns_record[OF env_busy_exceptions, of "''cat.png''" 1] env_busy_exceptions
  by (auto simp: env_busy_def service_busy_def is_exception_def)

text \<open>
  The claim as first stated covers any raised exception. A \<open>KeyboardInterrupt\<close>
  raised by the analyze call is caught by neither \<open>except\<close> clause: it leaves
  \<open>analyze_one\<close> and no record is returned.
\<close>

theorem analyze_one_raises_counterexample:
  "analyze env_interrupted 0 ''bytes'' = Inl keyboard_interrupt
   \<and> analyze_one env_interrupted ''cat.png'' 4 =
       (Inl keyboard_interrupt, [Pacing_sleep, Open_file ''cat.png'', Analyze_data ''bytes''])"
  by (simp add: eval_defs env_interrupted_def keyboard_interrupt_def)

subsection \<open>Retries\<close>

lemma analyze_calls_Cons [simp]:
  "analyze_calls (Session_get u # xs) = analyze_calls xs"
  "analyze_calls (Open_file p # xs) = analyze_calls xs"
  "analyze_calls (Analyze_from_url u # xs) = Suc (analyze_calls xs)"
  "analyze_calls (Analyze_data d # xs) = Suc (analyze_calls xs)"
  "analyze_calls (Backoff_sleep k # xs) = analyze_calls xs"
  by (simp_all add: analyze_calls_def)


lemma status_of_listed:
  "status_of e \<in> {Some 429, Some 500, Some 502, Some 503, Some 504} \<longleftrightarrow>
     carries_status e 429 \<or> carries_status e 500 \<or> carries_status e 502
     \<or> carries_status e 503 \<or> carries_status e 504"
  by (cases "status_code e"; cases "response_status_code e")
     (auto simp: status_of_def py_or_int_def)






text \<open>
  Claim C4, as amended. When the body of an attempt raises \<open>e\<close>, the loop goes
  on to the next attempt exactly when attempts remain and \<open>e\<close> is a service
  error that carries the status 429, 500, 502, 503 or 504, or a transport error
  (request not sent, or no response received). In every other case there is no
  retry: an instance of \<open>Exception\<close>, a missing file and a failed URL resolution
  among them, gives the failure record at once, and an exception that is not an
  instance of \<open>Exception\<close> leaves \<open>analyze_one\<close>. The run that starts at this
  attempt makes more than one attempt exactly in the first case.
\<close>

theorem retry_iff_retriable:
  assumes "try_body env n s = (Inl e, s', evs)"
  shows "analyze_loop env retries n s tr =
           (if int n < retries
               \<and> (family e = Http_response_error
                    \<and> (carries_status e 429 \<or> carries_status e 500 \<or> carries_status e 502
                        \<or> carries_status e 503 \<or> carries_status e 504)
                   \<or> family e = Service_request_error
                   \<or> family e = Service_response_error)
            then analyze_loop env retries (Suc n) s'
                   (tr @ Pacing_sleep # evs @ [Backoff_sleep (Suc n)])
            else if family e = Base_exception_only
            then (Inl e, tr @ Pacing_sleep # evs)
            else (Inr (failure_record s' e), tr @ Pacing_sleep # evs))
       \<and> (1 < attempts (snd (analyze_loop env retries n s []))
            \<longleftrightarrow> int n < retries
               \<and> (family e = Http_response_error
                    \<and> (carries_status e 429 \<or> carries_status e 500 \<or> carries_status e 502
                        \<or> carries_status e 503 \<or> carries_status e 504)
                   \<or> family e = Service_request_error
                   \<or> family e = Service_response_error))"
proof -
  define C where "C \<longleftrightarrow> int n < retries
               \<and> (family e = Http_response_error
                    \<and> (carries_status e 429 \<or> carries_status e 500 \<or> carries_status e 502
                        \<or> carries_status e 503 \<or> carries_status e 504)
                   \<or> family e = Service_request_error
                   \<or> family e = Service_response_error)"
  have R: "C \<longleftrightarrow> is_azure_error e \<and> int n < retries \<and> retriable e"
    unfolding C_def retriable_def status_of_listed
    by (cases "family e") (simp_all add: is_azure_error_def)
  have "analyze_loop env retries n s tr =
           (if C then analyze_loop env retries (Suc n) s'
                   (tr @ Pacing_sleep # evs @ [Backoff_sleep (Suc n)])
            else if family e = Base_exception_only
            then (Inl e, tr @ Pacing_sleep # evs)
            else (Inr (failure_record s' e), tr @ Pacing_sleep # evs))
       \<and> (1 < attempts (snd (analyze_loop env retries n s [])) \<longleftrightarrow> C)"
  proof (cases C)
    case True
    then have c: "is_azure_error e" "int n < retries" "retriable e" using R by blast+
    have step: "analyze_loop env retries n s tr =
        analyze_loop env retries (Suc n) s' (tr @ Pacing_sleep # evs @ [Backoff_sleep (Suc n)])" for tr
      by (rule analyze_loop_retry[OF assms c])
    have "attempts ([] @ Pacing_sleep # evs @ [Backoff_sleep (Suc n)]) + 1
             \<le> attempts (snd (analyze_loop env retries (Suc n) s'
                   ([] @ Pacing_sleep # evs @ [Backoff_sleep (Suc n)])))"
      using analyze_loop_attempts_bounds by blast
    then have "1 < attempts (snd (analyze_loop env retries n s []))"
      by (simp add: step)
    with True step show ?thesis by simp
  next
    case False
    then have c: "\<not> (is_azure_error e \<and> int n < retries \<and> retriable e)" using R by blast
    show ?thesis
    proof (cases "family e = Base_exception_only")
      case base: True
      then have nex: "\<not> is_exception e" by (simp add: is_exception_def)
      have stop: "analyze_loop env retries n s tr = (Inl e, tr @ Pacing_sleep # evs)" for tr
        by (rule analyze_loop_propagate[OF assms nex])
      have "attempts (snd (analyze_loop env retries n s [])) = 1"
        using try_body_no_pacing[OF assms] by (simp add: stop)
      with False base stop show ?thesis by simp
    next
      case other: False
      then have ex: "is_exception e" by (simp add: is_exception_def)
      have stop: "analyze_loop env retries n s tr =
          (Inr (failure_record s' e), tr @ Pacing_sleep # evs)" for tr
        by (rule analyze_loop_fail[OF assms c ex])
      have "attempts (snd (analyze_loop env retries n s [])) = 1"
        using try_body_no_pacing[OF assms] by (simp add: stop)
      with False other stop show ?thesis by simp
    qed
  qed
  then show ?thesis unfolding C_def .
qed

theorem retry_iff_retriable_witness:
  "try_body env_busy 0 ''cat.png'' =
     (Inl service_busy, ''cat.png'', [Open_file ''cat.png'', Analyze_data ''bytes''])
   \<and> family service_busy = Http_response_error \<and> status_code service_busy = Some 503
   \<and> 1 < attempts (snd (analyze_loop env_busy 4 0 ''cat.png'' []))
   \<and> \<not> 1 < attempts (snd (analyze_loop env_busy 0 0 ''cat.png'' []))
   \<and> try_body env_throttled 0 ''cat.png'' =
     (Inl throttled, ''cat.png'', [Open_file ''cat.png'', Analyze_data ''bytes''])
   \<and> status_code throttled = None \<and> response_status_code throttled = Some 429
   \<and> 1 < attempts (snd (analyze_loop env_throttled 4 0 ''cat.png'' []))
   \<and> try_body env_flaky 0 ''cat.png'' =
     (Inl connection_lost, ''cat.png'', [Open_file ''cat.png'', Analyze_data ''bytes''])
   \<and> family connection_lost = Service_response_error
   \<and> 1 < attempts (snd (analyze_loop env_flaky 4 0 ''cat.png'' []))
   \<and> try_body env_rejecting 0 ''http://example.test/cat'' =
     (Inl not_found, ''https://cdn.test/cat.jpg'',
      [Session_get ''http://example.test/cat'', Analyze_from_url ''https://cdn.test/cat.jpg''])
   \<and> family not_found = Http_response_error \<and> status_code not_found = Some 404
   \<and> \<not> 1 < attempts (snd (analyze_loop env_rejecting 4 0 ''http://example.test/cat'' []))
   \<and> try_body env_rejecting 0 ''cat.png'' =
       (Inl file_missing, ''cat.png'', [Open_file ''cat.png''])
   \<and> family file_missing = Other_exception
   \<and> analyze_loop env_rejecting 4 0 ''cat.png'' [] =
       (Inr (failure_record ''cat.png'' file_missing), [Pacing_sleep, Open_file ''cat.png''])
   \<and> \<not> 1 < attempts (snd (analyze_loop env_rejecting 4 0 ''cat.png'' []))"
proof -
  note busy = retry_iff_retriable[OF try_body_busy_file, of 4 "[]"]
  note spent = retry_iff_retriable[OF try_body_busy_file, of 0 "[]"]
  note throttle = retry_iff_retriable[OF try_body_throttled_file, of 4 "[]"]
  note flaky = retry_iff_retriable[OF try_body_flaky_file, of 4 "[]"]
  note rejected = retry_iff_retriable[OF try_body_rejecting_url, of 4 "[]"]
  note missing = retry_iff_retriable[OF try_body_rejecting_file, of 4 "[]"]
  have a: "1 < attempts (snd (analyze_loop env_busy 4 0 ''cat.png'' []))"
    using busy[THEN conjunct2] by (simp add: service_busy_def)
  have b: "\<not> 1 < attempts (snd (analyze_loop env_busy 0 0 ''cat.png'' []))"
    using spent[THEN conjunct2] by simp
  have c: "1 < attempts (snd (analyze_loop env_throttled 4 0 ''cat.png'' []))"
    using throttle[THEN conjunct2] by (simp add: throttled_def)
  have d: "1 < attempts (snd (analyze_loop env_flaky 4 0 ''cat.png'' []))"
    using flaky[THEN conjunct2] by (simp add: connection_lost_def)
  have e: "\<not> 1 < attempts (snd (analyze_loop env_rejecting 4 0 ''http://example.test/cat'' []))"
    using rejected[THEN conjunct2] by (simp add: not_found_def)
  have f: "analyze_loop env_rejecting 4 0 ''cat.png'' [] =
       (Inr (failure_record ''cat.png'' file_missing), [Pacing_sleep, Open_file ''cat.png''])"
    using missing[THEN conjunct1] by (simp add: file_missing_def)
  have g: "\<not> 1 < attempts (snd (analyze_loop env_rejecting 4 0 ''cat.png'' []))"
    using missing[THEN conjunct2] by (simp add: file_missing_def)
  have fams: "family service_busy = Http_response_error \<and> status_code service_busy = Some 503"
    "status_code throttled = None \<and> response_status_code throttled = Some 429"
    "family connection_lost = Service_response_error"
    "family not_found = Http_response_error \<and> status_code not_found = Some 404"
    "family file_missing = Other_exception"
    by (simp_all add: service_busy_def throttled_def connection_lost_def not_found_def
        file_missing_def)
  show ?thesis
    using a b c d e f g fams try_body_busy_file try_body_throttled_file try_body_flaky_file
      try_body_rejecting_url try_body_rejecting_file
    by blast
qed

text \<open>
  The claim as first stated gives a failure record for any other exception. A
  \<open>KeyboardInterrupt\<close> raised during an attempt is not retried and gives no
  record: it propagates.
\<close>

theorem uncaught_exception_counterexample:
  "try_body env_interrupted 0 ''http://example.test/cat'' =
     (Inl keyboard_interrupt, ''http://example.test/cat'',
      [Session_get ''http://example.test/cat'', Analyze_from_url ''http://example.test/cat''])
   \<and> family keyboard_interrupt = Base_exception_only
   \<and> analyze_loop env_interrupted 4 0 ''http://example.test/cat'' [] =
       (Inl keyboard_interrupt,
        [Pacing_sleep, Session_get ''http://example.test/cat'',
         Analyze_from_url ''http://example.test/cat''])"
  by (simp add: eval_defs env_interrupted_def keyboard_interrupt_def)

subsection \<open>The URL resolver\<close>

lemma startswith_iff: "startswith s p \<longleftrightarrow> (\<exists>q. s = p @ q)"
proof
  assume "startswith s p"
  then have "s = p @ drop (length p) s"
    unfolding startswith_def by (metis append_take_drop_id)
  then show "\<exists>q. s = p @ q" ..
next
  assume "\<exists>q. s = p @ q"
  then show "startswith s p" by (auto simp: startswith_def)
qed

lemma contains_iff: "contains sub s \<longleftrightarrow> (\<exists>p q. s = p @ sub @ q)"
proof (induction s)
  case Nil
  then show ?case by auto
next
  case (Cons c cs)
  have "(\<exists>p q. c # cs = p @ sub @ q) \<longleftrightarrow>
        (\<exists>q. c # cs = sub @ q) \<or> (\<exists>p' q. cs = p' @ sub @ q)"
  proof
    assume "\<exists>p q. c # cs = p @ sub @ q"
    then obtain p q where pq: "c # cs = p @ sub @ q" by blast
    show "(\<exists>q. c # cs = sub @ q) \<or> (\<exists>p' q. cs = p' @ sub @ q)"
    proof (cases p)
      case Nil
      with pq show ?thesis by auto
    next
      case (Cons a p')
      with pq show ?thesis by auto
    qed
  next
    assume "(\<exists>q. c # cs = sub @ q) \<or> (\<exists>p' q. cs = p' @ sub @ q)"
    then show "\<exists>p q. c # cs = p @ sub @ q"
    proof
      assume "\<exists>q. c # cs = sub @ q"
      then obtain q where "c # cs = [] @ sub @ q" by auto
      then show ?thesis by blast
    next
      assume "\<exists>p' q. cs = p' @ sub @ q"
      then obtain p' q where "c # cs = (c # p') @ sub @ q" by auto
      then show ?thesis by blast
    qed
  qed
  with Cons show ?case by (simp add: startswith_iff)
qed

text \<open>
  Claim C6. When \<open>session.get\<close> returns a response, the resolver returns the
  final URL of the response if its \<open>Content-Type\<close> header (the empty string
  when absent) contains \<open>image\<close>. Otherwise it raises an exception that is not
  one of the Azure classes and whose message contains the URL it was given; for
  an http(s) source the loop then returns the failure record on that very
  attempt, with the source unchanged and nothing after the \<open>session.get\<close>.
\<close>

theorem resolver_checks_content_type:
  assumes "session_get env n url = Inr response"
    and "header = (case content_type response of None \<Rightarrow> [] | Some v \<Rightarrow> v)"
  shows "((\<exists>p q. header = p @ ''image'' @ q) \<longrightarrow>
            fetch_image_url_with_headers env n url = Inr (final_url response))
       \<and> (\<not> (\<exists>p q. header = p @ ''image'' @ q) \<longrightarrow>
            (\<exists>e. fetch_image_url_with_headers env n url = Inl e
                \<and> family e = Other_exception
                \<and> (\<exists>p q. message e = p @ url @ q)
                \<and> (startswith url ''http://'' \<or> startswith url ''https://'' \<longrightarrow>
                     analyze_loop env retries n url tr =
                       (Inr (failure_record url e), tr @ [Pacing_sleep, Session_get url]))))"
proof (cases "contains ''image'' header")
  case True
  then have ex: "\<exists>p q. header = p @ ''image'' @ q" by (simp only: contains_iff)
  have "fetch_image_url_with_headers env n url = Inr (final_url response)"
    using True assms by (simp add: fetch_image_url_with_headers_def)
  with ex show ?thesis by blast
next
  case False
  define e where "e = plain_exception (''URL did not resolve to a valid image: '' @ url)"
  have f: "fetch_image_url_with_headers env n url = Inl e"
    using False assms by (simp add: fetch_image_url_with_headers_def e_def)
  have fam: "family e = Other_exception" by (simp add: e_def plain_exception_def)
  have msg: "message e = ''URL did not resolve to a valid image: '' @ url @ []"
    by (simp add: e_def plain_exception_def)
  have loop: "analyze_loop env retries n url tr =
      (Inr (failure_record url e), tr @ [Pacing_sleep, Session_get url])"
    if "startswith url ''http://'' \<or> startswith url ''https://''"
  proof -
    have tb: "try_body env n url = (Inl e, url, [Session_get url])"
      using that f by (simp add: try_body_def)
    have stop: "\<not> (is_azure_error e \<and> int n < retries \<and> retriable e)"
      using fam by (simp add: is_azure_error_def)
    have ex: "is_exception e" using fam by (simp add: is_exception_def)
    from analyze_loop_fail[OF tb stop ex] show ?thesis by simp
  qed
  from False have "\<not> (\<exists>p q. header = p @ ''image'' @ q)" by (simp add: contains_iff)
  with f fam msg loop show ?thesis by blast
qed

theorem resolver_checks_content_type_witness:
  "(\<exists>p q. ''image/jpeg'' = p @ ''image'' @ q)
   \<and> fetch_image_url_with_headers env_ok 0 ''http://example.test/cat'' = Inr ''https://cdn.test/cat.jpg''
   \<and> \<not> (\<exists>p q. ''text/html'' = p @ ''image'' @ q)
   \<and> startswith ''http://example.test/cat'' ''http://''
   \<and> analyze_loop env_flaky 4 0 ''http://example.test/cat'' [] =
       (Inr (failure_record ''http://example.test/cat''
          (plain_exception ''URL did not resolve to a valid image: http://example.test/cat'')),
        [Pacing_sleep, Session_get ''http://example.test/cat''])"
proof -
  let ?url = "''http://example.test/cat''"
  have img: "\<exists>p q. ''image/jpeg'' = p @ ''image'' @ q"
    unfolding contains_iff[symmetric] by (simp add: startswith_def)
  have html: "\<not> (\<exists>p q. ''text/html'' = p @ ''image'' @ q)"
    unfolding contains_iff[symmetric] by (simp add: startswith_def)
  have http: "startswith ?url ''http://''" by (simp add: startswith_def)
  have ok: "session_get env_ok 0 ?url =
      Inr \<lparr>content_type = Some ''image/jpeg'', final_url = ''https://cdn.test/cat.jpg''\<rparr>"
    by (simp add: env_ok_def)
  have flaky: "session_get env_flaky 0 ?url = Inr \<lparr>content_type = Some ''text/html'', final_url = ?url\<rparr>"
    by (simp add: env_flaky_def)
  have a: "fetch_image_url_with_headers env_ok 0 ?url = Inr ''https://cdn.test/cat.jpg''"
    using resolver_checks_content_type[OF ok, of "''image/jpeg''"] img by simp
  obtain e where e: "fetch_image_url_with_headers env_flaky 0 ?url = Inl e"
      "analyze_loop env_flaky 4 0 ?url [] =
         (Inr (failure_record ?url e), [] @ [Pacing_sleep, Session_get ?url])"
    using resolver_checks_content_type[OF flaky, of "''text/html''" 4 "[]"] html http by auto
  have "fetch_image_url_with_headers env_flaky 0 ?url =
      Inl (plain_exception ''URL did not resolve to a valid image: http://example.test/cat'')"
    by (simp add: fetch_image_url_with_headers_def env_flaky_def startswith_def)
  with e(1) have "e = plain_exception ''URL did not resolve to a valid image: http://example.test/cat''"
    by simp
  with e(2) img html http a show ?thesis by simp
qed

text \<open>
  Claim C10. On an attempt with an http(s) source, if the resolver returns \<open>u\<close>
  and the analyze call then raises an exception that ends the loop (not
  retriable, or no retries left), the \<open>source\<close> of the failure record that is
  returned is the resolved URL \<open>u\<close>, not the string the attempt started with.
  (The one case without a record is an exception that no handler catches.)
\<close>

theorem source_rewritten_before_outcome:
  assumes "startswith s ''http://'' \<or> startswith s ''https://''"
    and "fetch_image_url_with_headers env n s = Inr u"
    and "analyze_from_url env n u = Inl e"
    and "\<not> (is_azure_error e \<and> int n < retries \<and> retriable e)"
  shows "analyze_loop env retries n s tr =
           (if family e = Base_exception_only then Inl e else Inr (failure_record u e),
            tr @ [Pacing_sleep, Session_get s, Analyze_from_url u])
       \<and> (\<forall>r. fst (analyze_loop env retries n s tr) = Inr r \<longrightarrow> source r = u)
       \<and> (n = 0 \<longrightarrow> (\<forall>r. fst (analyze_one env s retries) = Inr r \<longrightarrow> source r = u))"
proof -
  have tb: "try_body env n s = (Inl e, u, [Session_get s, Analyze_from_url u])"
    using assms(1-3) by (simp add: try_body_def)
  have L: "analyze_loop env retries n s tr =
           (if family e = Base_exception_only then Inl e else Inr (failure_record u e),
            tr @ [Pacing_sleep, Session_get s, Analyze_from_url u])" for tr
  proof (cases "family e = Base_exception_only")
    case True
    then have "\<not> is_exception e" by (simp add: is_exception_def)
    from analyze_loop_propagate[OF tb this] True show ?thesis by simp
  next
    case False
    then have "is_exception e" by (simp add: is_exception_def)
    from analyze_loop_fail[OF tb assms(4) this] False show ?thesis by simp
  qed
  show ?thesis
    using L[of tr] L[of "[]"]
    by (auto simp: failure_record_def analyze_one_def split: if_splits)
qed

theorem source_rewritten_before_outcome_witness:
  "startswith ''http://example.test/cat'' ''http://''
   \<and> fetch_image_url_with_headers env_rejecting 0 ''http://example.test/cat'' = Inr ''https://cdn.test/cat.jpg''
   \<and> analyze_from_url env_rejecting 0 ''https://cdn.test/cat.jpg'' = Inl not_found
   \<and> \<not> retriable not_found
   \<and> analyze_one env_rejecting ''http://example.test/cat'' 4 =
       (Inr (failure_record ''https://cdn.test/cat.jpg'' not_found),
        [Pacing_sleep, Session_get ''http://example.test/cat'',
         Analyze_from_url ''https://cdn.test/cat.jpg''])
   \<and> source (failure_record ''https://cdn.test/cat.jpg'' not_found) = ''https://cdn.test/cat.jpg''
   \<and> ''https://cdn.test/cat.jpg'' \<noteq> ''http://example.test/cat''"
proof -
  let ?url = "''http://example.test/cat''"
  have http: "startswith ?url ''http://'' \<or> startswith ?url ''https://''"
    by (simp add: startswith_def)
  have res: "fetch_image_url_with_headers env_rejecting 0 ?url = Inr ''https://cdn.test/cat.jpg''"
    by (simp add: fetch_image_url_with_headers_def env_rejecting_def startswith_def)
  have an: "analyze_from_url env_rejecting 0 ''https://cdn.test/cat.jpg'' = Inl not_found"
    by (simp add: env_rejecting_def)
  have nr: "\<not> retriable not_found"
    by (simp add: retriable_def status_of_def py_or_int_def not_found_def)
  then have terminal: "\<not> (is_azure_error not_found \<and> int 0 < 4 \<and> retriable not_found)" by simp
  have fam: "family not_found \<noteq> Base_exception_only" by (simp add: not_found_def)
  from source_rewritten_before_outcome[OF http res an terminal, of "[]", THEN conjunct1] fam
  have "analyze_one env_rejecting ?url 4 =
       (Inr (failure_record ''https://cdn.test/cat.jpg'' not_found),
        [Pacing_sleep, Session_get ?url, Analyze_from_url ''https://cdn.test/cat.jpg''])"
    by (simp add: analyze_one_def)
  with res an nr show ?thesis by (simp add: startswith_def failure_record_def)
qed

subsection \<open>Tag normalisation\<close>

text \<open>
  Claim C9, as amended. A raw tag whose \<open>confidence\<close> attribute is zero does not
  keep it: the normalised confidence is whatever the \<open>score\<close> attribute holds,
  null when \<open>score\<close> is absent or \<open>None\<close>, and the number otherwise (zero when
  \<open>score\<close> is itself zero).
\<close>

theorem zero_confidence_takes_score:
  assumes "tag_confidence t = Some 0"
    and "py_or_str (tag_name t) (tag_text t) = Some nm"
  shows "normalize_tag t = Some \<lparr>name = nm, confidence = tag_score t\<rparr>"
  using assms by (simp add: normalize_tag_def py_or_float_def)

theorem zero_confidence_takes_score_witness:
  "tag_confidence rescored_tag = Some 0
   \<and> py_or_str (tag_name rescored_tag) (tag_text rescored_tag) = Some ''fog''
   \<and> normalize_tag rescored_tag = Some \<lparr>name = ''fog'', confidence = Some (7 / 10)\<rparr>"
proof -
  have a: "tag_confidence rescored_tag = Some 0" by (simp add: rescored_tag_def)
  have b: "py_or_str (tag_name rescored_tag) (tag_text rescored_tag) = Some ''fog''"
    by (simp add: rescored_tag_def py_or_str_def)
  from zero_confidence_takes_score[OF a b] a b show ?thesis
    by (simp add: rescored_tag_def)
qed

text \<open>
  The claim as first stated says that the confidence is null whenever no truthy
  \<open>score\<close> exists. A tag whose \<open>confidence\<close> and \<open>score\<close> are both zero is
  normalised with confidence zero.
\<close>

theorem zero_confidence_kept_counterexample:
  "tag_confidence zero_tag = Some 0
   \<and> tag_score zero_tag = Some 0
   \<and> normalize_tag zero_tag = Some \<lparr>name = ''fog'', confidence = Some 0\<rparr>"
  by (simp add: zero_tag_def normalize_tag_def py_or_float_def py_or_str_def)

subsection \<open>The order of the tags\<close>

lemma mset_sorted_key_reverse: "mset (sorted_key_reverse f xs) = mset xs"
  by (simp add: sorted_key_reverse_def)

lemma sorted_key_reverse_descending:
  "sorted_wrt (\<lambda>a b. f b \<le> f a) (sorted_key_reverse f xs)"
proof -
  have "sorted (map f (sort_key f (rev xs)))" by (rule sorted_sort_key)
  then have "sorted_wrt (\<lambda>a b. f a \<le> f b) (sort_key f (rev xs))"
    by (simp add: sorted_map)
  then show ?thesis
    by (simp add: sorted_key_reverse_def sorted_wrt_rev)
qed

lemma sorted_key_reverse_stable:
  "filter (\<lambda>x. f x = k) (sorted_key_reverse f xs) = filter (\<lambda>x. f x = k) xs"
proof -
  have "filter (\<lambda>x. f x = k) (sorted_key_reverse f xs)
      = rev (filter (\<lambda>x. f x = k) (sort_key f (rev xs)))"
    by (simp add: sorted_key_reverse_def rev_filter)
  also have "\<dots> = rev (filter (\<lambda>x. f x = k) (rev xs))"
    by (simp only: sort_key_stable)
  also have "\<dots> = filter (\<lambda>x. f x = k) xs"
    by (simp add: rev_filter)
  finally show ?thesis .
qed

lemma sort_key_of_le:
  "sort_key_of b \<le> sort_key_of a \<longleftrightarrow>
     confidence b = None
     \<or> (\<exists>x y. confidence a = Some x \<and> confidence b = Some y \<and> y \<le> x)"
  by (cases "confidence a"; cases "confidence b")
     (auto simp: sort_key_of_def less_eq_prod_def)

text \<open>
  Claim C2. The \<open>tags\<close> of a successful record are the normalised tag entries
  rearranged (nothing added or lost) so that no entry comes before one it must
  follow: an entry with a null confidence is followed only by entries with a
  null confidence, and among the others the confidence never increases. The
  sort is stable: for every confidence value, null included, the entries that
  carry it appear in the order the service gave them.
\<close>

theorem tags_sorted_descending_nulls_last:
  assumes "r = success_record src cap xs rw"
  shows "mset (tags r) = mset xs
       \<and> sorted_wrt (\<lambda>a b. confidence b = None
                     \<or> (\<exists>x y. confidence a = Some x \<and> confidence b = Some y \<and> y \<le> x)) (tags r)
       \<and> (\<forall>c. filter (\<lambda>t. confidence t = c) (tags r) = filter (\<lambda>t. confidence t = c) xs)"
proof -
  have t: "tags r = sorted_key_reverse sort_key_of xs"
    using assms by (simp add: success_record_def)
  have a: "mset (tags r) = mset xs" by (simp add: t mset_sorted_key_reverse)
  have b: "sorted_wrt (\<lambda>a b. confidence b = None
                     \<or> (\<exists>x y. confidence a = Some x \<and> confidence b = Some y \<and> y \<le> x)) (tags r)"
    using sorted_key_reverse_descending[of sort_key_of xs]
    by (simp add: t sort_key_of_le)
  have c: "filter (\<lambda>t. confidence t = c) (tags r) = filter (\<lambda>t. confidence t = c) xs" for c
  proof -
    have "(\<lambda>t. confidence t = c) = (\<lambda>t. sort_key_of t = (c \<noteq> None, c))"
      by (auto simp: sort_key_of_def)
    then show ?thesis
      by (simp add: t sorted_key_reverse_stable)
  qed
  from a b c show ?thesis by blast
qed

lemma tags_sample:
  "tags (success_record ''cat.png'' cap
      [\<lparr>name = ''B'', confidence = Some (2 / 10)\<rparr>,
       \<lparr>name = ''C'', confidence = None\<rparr>,
       \<lparr>name = ''A'', confidence = Some (9 / 10)\<rparr>,
       \<lparr>name = ''D'', confidence = Some (2 / 10)\<rparr>,
       \<lparr>name = ''E'', confidence = None\<rparr>] rw) =
     [\<lparr>name = ''A'', confidence = Some (9 / 10)\<rparr>,
      \<lparr>name = ''B'', confidence = Some (2 / 10)\<rparr>,
      \<lparr>name = ''D'', confidence = Some (2 / 10)\<rparr>,
      \<lparr>name = ''C'', confidence = None\<rparr>,
      \<lparr>name = ''E'', confidence = None\<rparr>]"
  by (simp add: success_record_def sorted_key_reverse_def sort_key_of_def less_eq_prod_def)

theorem tags_sorted_descending_nulls_last_witness:
  "(\<exists>r xs. record_of ''cat.png'' sample_result = Inr r \<and> tags_list_of sample_result = Inr xs
      \<and> map name xs = [''B'', ''C'', ''A'', ''D'', ''E'']
      \<and> map name (tags r) = [''A'', ''B'', ''D'', ''C'', ''E'']
      \<and> filter (\<lambda>t. confidence t = None) (tags r) = filter (\<lambda>t. confidence t = None) xs
      \<and> map name (filter (\<lambda>t. confidence t = Some (2 / 10)) (tags r)) = [''B'', ''D''])"
proof -
  define xs where "xs =
      [\<lparr>name = ''B'', confidence = Some (2 / 10)\<rparr>,
       \<lparr>name = ''C'', confidence = None\<rparr>,
       \<lparr>name = ''A'', confidence = Some (9 / 10)\<rparr>,
       \<lparr>name = ''D'', confidence = Some (2 / 10)\<rparr>,
       \<lparr>name = ''E'', confidence = None :: real option\<rparr>]"
  define r where "r = success_record ''cat.png'' (caption_of sample_result) xs
      (result_as_dict sample_result)"
  note T = tags_sorted_descending_nulls_last[OF r_def]
  have rec: "record_of ''cat.png'' sample_result = Inr r"
    by (simp add: record_of_sample r_def xs_def)
  have lst: "tags_list_of sample_result = Inr xs"
    by (simp add: tags_list_of_sample xs_def)
  have a: "filter (\<lambda>t. confidence t = None) (tags r) = filter (\<lambda>t. confidence t = None) xs"
    using T by blast
  have b: "filter (\<lambda>t. confidence t = Some (2 / 10)) (tags r)
       = filter (\<lambda>t. confidence t = Some (2 / 10)) xs"
    using T by blast
  have c: "map name (filter (\<lambda>t. confidence t = Some (2 / 10)) xs) = [''B'', ''D'']"
    by (simp add: xs_def)
  have d: "map name (tags r) = [''A'', ''B'', ''D'', ''C'', ''E'']"
    unfolding r_def xs_def tags_sample by simp
  have e: "map name xs = [''B'', ''C'', ''A'', ''D'', ''E'']" by (simp add: xs_def)
  from rec lst a b c d e show ?thesis by auto
qed

subsection \<open>The CSV summary\<close>

lemma length_csv_header: "length (csv_header top_k) = 3 + nat top_k"
  by (simp add: csv_header_def)

lemma length_csv_row_failed:
  "\<not> success e \<Longrightarrow> length (csv_row top_k e) = 3 + nat top_k"
  by (simp add: csv_row_def)

lemma length_csv_row_success:
  "success e \<Longrightarrow> 0 \<le> top_k \<Longrightarrow>
   length (csv_row top_k e) = 3 + min (nat top_k) (length (tags e))"
  by (auto simp: csv_row_def py_slice_to_def length_csv_header Let_def min_def nat_add_distrib)

lemma csv_row_failed:
  "\<not> success e \<Longrightarrow>
   csv_row top_k e = [Text_cell (source e), Text_cell [], Text_cell []]
                     @ replicate (nat top_k) (Text_cell [])"
  by (simp add: csv_row_def)

text \<open>
  Claim C8 says that every CSV row has \<open>3 + top_k\<close> columns, padded with blanks.
  The header and the rows of failed records do (\<open>length_csv_header\<close>,
  \<open>length_csv_row_failed\<close>). The row of a successful record is only cut to the
  length of the header, never padded (\<open>length_csv_row_success\<close>): with
  \<open>top_k = 5\<close>, a successful record without tags gives a row of 3 columns and
  one with three tags a row of 6, under a header of 8.
\<close>

theorem csv_success_row_not_padded:
  "success bare_record
   \<and> csv_row 5 bare_record =
       [Text_cell ''cat.png'', Text_cell ''a cat'', Number_cell (8 / 10)]
   \<and> length (csv_row 5 bare_record) = 3
   \<and> length (csv_header 5) = 8
   \<and> length (csv_row 5 sample_record) = 6
   \<and> length (csv_row 5 (failure_record ''cat.png'' service_busy)) = 8"
  by (simp add: csv_row_def bare_record_def sample_record_def sample_entries_def
      py_slice_to_def csv_header_def failure_record_def)

subsection \<open>The presenter\<close>

lemma threshold_filter_Some:
  "threshold_filter (Some t) tgs =
     filter (\<lambda>x. \<not> (\<exists>c. confidence x = Some c \<and> \<not> float_ge c t)) tgs"
  by (auto simp: threshold_filter_def intro!: filter_cong split: option.splits)

lemma threshold_filter_infinite:
  "threshold_filter (Some Pos_inf) tgs = filter (\<lambda>x. confidence x = None) tgs"
  "threshold_filter (Some Neg_inf) tgs = tgs"
  by (auto simp: threshold_filter_def intro!: filter_cong filter_True split: option.splits)

lemma float_ge_finite: "\<not> float_ge c (Finite v) \<longleftrightarrow> c < v"
  by auto

lemma filter_tag_lines:
  "filter is_tag_line (map (\<lambda>x. Tag_line (name x) (confidence x)) xs)
     = map (\<lambda>x. Tag_line (name x) (confidence x)) xs"
  by (induction xs) auto

lemma py_slice_to_negative:
  "k < 0 \<Longrightarrow> py_slice_to xs k = rev (drop (nat (- k)) (rev xs))"
  by (simp add: py_slice_to_def rev_drop rev_take)

lemma tag_lines_of_print_result:
  "success entry \<Longrightarrow>
   filter is_tag_line (print_result entry top_k threshold) =
     map (\<lambda>x. Tag_line (name x) (confidence x))
       (py_slice_to (threshold_filter threshold (tags entry)) top_k)"
  by (simp add: print_result_def filter_tag_lines split: option.splits)

text \<open>
  Claim C7, as amended. For a successful record and a numeric threshold \<open>v\<close>,
  let \<open>kept\<close> be the tags left after dropping exactly those whose confidence is
  a number below \<open>v\<close>; a tag with a null confidence is never dropped. For
  \<open>top_k \<ge> 0\<close> the tag lines printed are, in order, the first \<open>top_k\<close> tags
  of \<open>kept\<close>; for a negative \<open>top_k\<close> they are \<open>kept\<close> without its last
  \<open>-top_k\<close> tags. With the threshold \<open>nan\<close> only the tags with a null
  confidence are left. For the tags A 0.9, B 0.2, C null, the threshold 0.5 and
  \<open>top_k = 5\<close> the lines are A and C.
\<close>

theorem print_result_threshold:
  assumes "success entry"
    and "kept = filter (\<lambda>x. \<not> (\<exists>c. confidence x = Some c \<and> c < v)) (tags entry)"
  shows "(0 \<le> top_k \<longrightarrow>
            filter is_tag_line (print_result entry top_k (Some (Finite v))) =
              map (\<lambda>x. Tag_line (name x) (confidence x)) (take (nat top_k) kept))
       \<and> (top_k < 0 \<longrightarrow>
            filter is_tag_line (print_result entry top_k (Some (Finite v))) =
              map (\<lambda>x. Tag_line (name x) (confidence x)) (rev (drop (nat (- top_k)) (rev kept))))
       \<and> (\<forall>x \<in> set (tags entry). confidence x = None \<longrightarrow> x \<in> set kept)
       \<and> filter is_tag_line (print_result entry top_k (Some Nan)) =
           map (\<lambda>x. Tag_line (name x) (confidence x))
             (py_slice_to (filter (\<lambda>x. confidence x = None) (tags entry)) top_k)
       \<and> print_result sample_record 5 (Some (Finite (5 / 10))) =
           [Header_line ''cat.png'', Caption_line ''a cat'' (Some (8 / 10)),
            Tag_line ''A'' (Some (9 / 10)), Tag_line ''C'' None]"
proof -
  have k: "threshold_filter (Some (Finite v)) (tags entry) = kept"
    unfolding assms(2) threshold_filter_Some float_ge_finite ..
  have a: "0 \<le> top_k \<Longrightarrow>
            filter is_tag_line (print_result entry top_k (Some (Finite v))) =
              map (\<lambda>x. Tag_line (name x) (confidence x)) (take (nat top_k) kept)"
    using assms(1) by (simp add: tag_lines_of_print_result k py_slice_to_def)
  have b: "top_k < 0 \<Longrightarrow>
            filter is_tag_line (print_result entry top_k (Some (Finite v))) =
              map (\<lambda>x. Tag_line (name x) (confidence x)) (rev (drop (nat (- top_k)) (rev kept)))"
    using assms(1) by (simp add: tag_lines_of_print_result k py_slice_to_negative)
  have c: "\<forall>x \<in> set (tags entry). confidence x = None \<longrightarrow> x \<in> set kept"
    by (simp add: assms(2))
  have "threshold_filter (Some Nan) (tags entry) = filter (\<lambda>x. confidence x = None) (tags entry)"
    by (auto simp: threshold_filter_def intro!: filter_cong split: option.splits)
  then have d: "filter is_tag_line (print_result entry top_k (Some Nan)) =
           map (\<lambda>x. Tag_line (name x) (confidence x))
             (py_slice_to (filter (\<lambda>x. confidence x = None) (tags entry)) top_k)"
    using assms(1) by (simp add: tag_lines_of_print_result)
  have e: "print_result sample_record 5 (Some (Finite (5 / 10))) =
           [Header_line ''cat.png'', Caption_line ''a cat'' (Some (8 / 10)),
            Tag_line ''A'' (Some (9 / 10)), Tag_line ''C'' None]"
    by (simp add: print_result_def sample_record_def sample_entries_def threshold_filter_def
        py_slice_to_def)
  from a b c d e show ?thesis by blast
qed

theorem print_result_threshold_witness:
  "success sample_record
   \<and> filter is_tag_line (print_result sample_record 5 (Some (Finite (5 / 10)))) =
       [Tag_line ''A'' (Some (9 / 10)), Tag_line ''C'' None]
   \<and> filter is_tag_line (print_result sample_record 1 (Some (Finite (5 / 10)))) =
       [Tag_line ''A'' (Some (9 / 10))]
   \<and> filter is_tag_line (print_result sample_record (- 1) (Some (Finite (5 / 10)))) =
       [Tag_line ''A'' (Some (9 / 10))]
   \<and> filter is_tag_line (print_result sample_record 5 (Some Nan)) = [Tag_line ''C'' None]"
proof -
  have s: "success sample_record" by (simp add: sample_record_def)
  have p: "(\<lambda>x. \<not> (\<exists>c. confidence x = Some c \<and> c < v))
         = (\<lambda>x. case confidence x of None \<Rightarrow> True | Some c \<Rightarrow> \<not> c < v)" for v :: real
    by (auto split: option.splits)
  have kept: "[\<lparr>name = ''A'', confidence = Some (9 / 10)\<rparr>, \<lparr>name = ''C'', confidence = None\<rparr>]
      = filter (\<lambda>x. \<not> (\<exists>c. confidence x = Some c \<and> c < 5 / 10)) (tags sample_record)"
    unfolding p by (simp add: sample_record_def sample_entries_def)
  note T = print_result_threshold[OF s kept]
  have a: "filter is_tag_line (print_result sample_record 5 (Some (Finite (5 / 10)))) =
       [Tag_line ''A'' (Some (9 / 10)), Tag_line ''C'' None]"
    using T[where top_k=5, THEN conjunct1] by simp
  have b: "filter is_tag_line (print_result sample_record 1 (Some (Finite (5 / 10)))) =
       [Tag_line ''A'' (Some (9 / 10))]"
    using T[where top_k=1, THEN conjunct1] by simp
  have c: "filter is_tag_line (print_result sample_record (- 1) (Some (Finite (5 / 10)))) =
       [Tag_line ''A'' (Some (9 / 10))]"
    using T[where top_k="- 1", THEN conjunct2, THEN conjunct1] by simp
  have d: "filter is_tag_line (print_result sample_record 5 (Some Nan)) = [Tag_line ''C'' None]"
    using T[where top_k=5, THEN conjunct2, THEN conjunct2, THEN conjunct2, THEN conjunct1]
    by (simp add: sample_record_def sample_entries_def py_slice_to_def)
  from s a b c d show ?thesis by blast
qed

text \<open>
  The claim as first stated has the first \<open>top_k\<close> tags for every \<open>top_k\<close>.
  With \<open>top_k = -1\<close> the first \<open>top_k\<close> tags are none; the presenter prints A.
\<close>

theorem negative_top_k_counterexample:
  "success sample_record
   \<and> tags sample_record = sample_entries
   \<and> print_result sample_record (- 1) (Some (Finite (5 / 10))) =
       [Header_line ''cat.png'', Caption_line ''a cat'' (Some (8 / 10)),
        Tag_line ''A'' (Some (9 / 10))]
   \<and> take (nat (- 1)) sample_entries = []"
  by (simp add: print_result_def sample_record_def sample_entries_def threshold_filter_def
      py_slice_to_def)

end
